theory Spec2Isabelle
  imports Complex_Main "HOL-Library.Word"
begin

section \<open>The receptivity classifier\<close>

text \<open>
  \<^verbatim>\<open>classify_endometrium(thickness_mm)\<close> of \<^verbatim>\<open>garbha_ai_app.py\<close> takes either
  \<^verbatim>\<open>None\<close> or a float. The function only compares its argument with the literals
  7.0, 9.0 and 15.0, which are exact in binary floating point, and on finite floats
  the comparison operators agree with the order of the real numbers the floats denote.
  A finite thickness is therefore a \<^typ>\<open>real\<close>, and the argument is a
  \<^typ>\<open>real option\<close>.

  The function returns a pair of strings. For a number the second component is a
  display colour; for \<^verbatim>\<open>None\<close> it is a message to the user.
\<close>

definition classify_endometrium :: "real option \<Rightarrow> string \<times> string" where
  "classify_endometrium thickness_mm =
     (case thickness_mm of
        None \<Rightarrow> (''N/A'', ''Please run the analysis first.'')
      | Some t \<Rightarrow>
          if t \<ge> 9.0 \<and> t \<le> 15.0 then (''Receptive (9-15 mm)'', ''green'')
          else if t > 7.0 \<and> t < 9.0 then (''Pre-Receptive (7-9 mm)'', ''orange'')
          else (''Non-Receptive (<7 mm or >15 mm)'', ''red''))"

text \<open>
  The four return sites of the function, and for each the condition under which
  control reaches it: the test of its own branch together with the failure of every
  test before it.
\<close>

datatype branch = Absent | Receptive | Pre_Receptive | Non_Receptive

fun fires :: "branch \<Rightarrow> real option \<Rightarrow> bool" where
  "fires Absent thickness_mm = (thickness_mm = None)"
| "fires Receptive thickness_mm =
     (case thickness_mm of None \<Rightarrow> False | Some t \<Rightarrow> t \<ge> 9.0 \<and> t \<le> 15.0)"
| "fires Pre_Receptive thickness_mm =
     (case thickness_mm of None \<Rightarrow> False
      | Some t \<Rightarrow> \<not> (t \<ge> 9.0 \<and> t \<le> 15.0) \<and> (t > 7.0 \<and> t < 9.0))"
| "fires Non_Receptive thickness_mm =
     (case thickness_mm of None \<Rightarrow> False
      | Some t \<Rightarrow> \<not> (t \<ge> 9.0 \<and> t \<le> 15.0) \<and> \<not> (t > 7.0 \<and> t < 9.0))"

fun returned :: "branch \<Rightarrow> string \<times> string" where
  "returned Absent = (''N/A'', ''Please run the analysis first.'')"
| "returned Receptive = (''Receptive (9-15 mm)'', ''green'')"
| "returned Pre_Receptive = (''Pre-Receptive (7-9 mm)'', ''orange'')"
| "returned Non_Receptive = (''Non-Receptive (<7 mm or >15 mm)'', ''red'')"

section \<open>The simulated segmentation\<close>

text \<open>
  \<^verbatim>\<open>np.array(image.convert("RGB"))\<close> is an array of shape \<open>(h, w, 3)\<close> with
  entries of type \<^verbatim>\<open>uint8\<close>: \<open>h\<close> rows of \<open>w\<close> pixels, a pixel being its red,
  green and blue channel.
\<close>

type_synonym pixel = "8 word \<times> 8 word \<times> 8 word"

record ndarray =
  height :: nat
  width :: nat
  rows :: "pixel list list"


text \<open>
  \<^verbatim>\<open>(processed_array * 0.7).astype(np.uint8)\<close> multiplies every channel of every
  pixel by 0.7 in floating point and converts the product back to \<^verbatim>\<open>uint8\<close>.
  The floating-point product of one channel is not modelled: it is the parameter
  \<open>scale\<close>, and the array operation applies it to every channel.
\<close>

definition darken :: "(8 word \<Rightarrow> 8 word) \<Rightarrow> ndarray \<Rightarrow> ndarray" where
  "darken scale a =
     a\<lparr>rows := map (map (\<lambda>(r, g, b). (scale r, scale g, scale b))) (rows a)\<rparr>"

text \<open>
  A bound \<open>k\<close> of a Python slice over a dimension of length \<open>n\<close>: a negative bound
  counts from the end, and every bound is clipped to the dimension.
\<close>

definition slice_bound :: "int \<Rightarrow> int \<Rightarrow> int" where
  "slice_bound n k = (if k < 0 then max 0 (k + n) else min k n)"

text \<open>
  The lines from \<^verbatim>\<open>h, w, _ = processed_array.shape\<close> to the slice assignment of
  \<^verbatim>\<open>[255, 50, 50]\<close>.
\<close>

definition paint_mask :: "ndarray \<Rightarrow> ndarray" where
  "paint_mask a =
     (let h = int (height a); w = int (width a);
          center_h = h div 2; center_w = w div 2;
          mask_h = h div 6;
          mask_w = w div 5;
          r0 = slice_bound h (center_h - mask_h); r1 = slice_bound h (center_h + mask_h);
          c0 = slice_bound w (center_w - mask_w); c1 = slice_bound w (center_w + mask_w)
      in a\<lparr>rows :=
           map (\<lambda>(i, row).
                  if r0 \<le> int i \<and> int i < r1
                  then map (\<lambda>(j, p). if c0 \<le> int j \<and> int j < c1 then (255, 50, 50) else p)
                         (enumerate 0 row)
                  else row)
             (enumerate 0 (rows a))\<rparr>)"

definition segmentation :: "(8 word \<Rightarrow> 8 word) \<Rightarrow> ndarray \<Rightarrow> ndarray" where
  "segmentation scale img = paint_mask (darken scale img)"

text \<open>Test images of one colour, and the number of pixels of the mask's colour.\<close>

definition blank :: "nat \<Rightarrow> nat \<Rightarrow> ndarray" where
  "blank h w = \<lparr>height = h, width = w, rows = replicate h (replicate w (0, 0, 0))\<rparr>"


section \<open>One run of the script\<close>

text \<open>
  The script keeps two entries in the session state. Lines 110 to 113 set an entry
  that is missing to \<^verbatim>\<open>None\<close>, so a missing entry and an entry holding
  \<^verbatim>\<open>None\<close> are the same to everything after them, and both are \<^term>\<open>None\<close>
  here.
\<close>

record session_state =
  thickness :: "real option"
  processed_image :: "ndarray option"

text \<open>
  What one run receives from outside: the uploaded file (as the RGB array it
  decodes to), whether the button was pressed, the number drawn by
  \<^verbatim>\<open>round(random.uniform(6.5, 12.5), 2)\<close>, and the statement of the \<^verbatim>\<open>try\<close>
  block, if any, at which a library call raises an exception, with its message.
\<close>

datatype stage =
    Open_image | Show_heading | Show_image | Button | Spinner | Sleep | Draw
  | Convert | Darken | Paint | From_array | Success

record run_input =
  uploaded_file :: "ndarray option"
  button :: bool
  mock_thickness :: real
  fault :: "(stage \<times> string) option"

definition fault_in :: "run_input \<Rightarrow> stage list \<Rightarrow> string option" where
  "fault_in inp stages =
     (case fault inp of
        None \<Rightarrow> None
      | Some (st, e) \<Rightarrow> if st \<in> set stages then Some e else None)"

text \<open>
  How a block of statements ends: it runs to its end, it raises an exception (a
  subclass of \<^verbatim>\<open>Exception\<close>) with a message, or \<^verbatim>\<open>st.rerun()\<close> stops the run,
  which \<^verbatim>\<open>except Exception\<close> does not catch.
\<close>

datatype signal = Finished | Raised string | Rerun

text \<open>The body of the \<^verbatim>\<open>try\<close> block, lines 121 to 158.\<close>

definition try_body ::
  "(8 word \<Rightarrow> 8 word) \<Rightarrow> run_input \<Rightarrow> ndarray \<Rightarrow> session_state \<Rightarrow> signal \<times> session_state"
where
  "try_body scale inp img s =
     (case fault_in inp [Open_image, Show_heading, Show_image, Button] of
        Some e \<Rightarrow> (Raised e, s)
      | None \<Rightarrow>
          if \<not> button inp then (Finished, s)
          else
            (case fault_in inp [Spinner, Sleep, Draw] of
               Some e \<Rightarrow> (Raised e, s)
             | None \<Rightarrow>
                 let s1 = s\<lparr>thickness := Some (mock_thickness inp)\<rparr> in
                 (case fault_in inp [Convert, Darken, Paint, From_array] of
                    Some e \<Rightarrow> (Raised e, s1)
                  | None \<Rightarrow>
                      let s2 = s1\<lparr>processed_image := Some (segmentation scale img)\<rparr> in
                      (case fault_in inp [Success] of
                         Some e \<Rightarrow> (Raised e, s2)
                       | None \<Rightarrow> (Rerun, s2)))))"

text \<open>
  Lines 118 to 163: the \<^verbatim>\<open>try\<close> block with its handler. The result is how the
  block ended, the message shown by \<^verbatim>\<open>st.error\<close>, and the session state.
\<close>

definition upload_section ::
  "(8 word \<Rightarrow> 8 word) \<Rightarrow> run_input \<Rightarrow> session_state
     \<Rightarrow> signal \<times> string option \<times> session_state"
where
  "upload_section scale inp s =
     (case uploaded_file inp of
        None \<Rightarrow> (Finished, None, s)
      | Some img \<Rightarrow>
          (case try_body scale inp img s of
             (Raised e, s') \<Rightarrow>
               (Finished, Some (''Error loading or processing image: '' @ e),
                s'\<lparr>thickness := None, processed_image := None\<rparr>)
           | (sig, s') \<Rightarrow> (sig, None, s')))"

text \<open>
  Lines 167 to 222: the results section. \<open>metric\<close> is the thickness given to
  \<^verbatim>\<open>st.metric\<close> (its formatting to two decimals is not modelled). The section
  returns what it renders, if anything, and the session state it leaves.
\<close>

record results =
  metric :: "real option"
  classification :: string
  color :: string
  segmented :: "ndarray option"

definition results_section :: "session_state \<Rightarrow> results option \<times> session_state" where
  "results_section s =
     (if thickness s \<noteq> None \<and> processed_image s \<noteq> None then
        let thickness_mm = thickness s;
            (classification, color) = classify_endometrium thickness_mm
        in (Some \<lparr>metric = thickness_mm, classification = classification, color = color,
                   segmented = processed_image s\<rparr>, s)
      else (None, s))"

record page =
  error_shown :: "string option"
  shown :: "results option"
  rerun :: bool

definition script_run ::
  "(8 word \<Rightarrow> 8 word) \<Rightarrow> run_input \<Rightarrow> session_state \<Rightarrow> page \<times> session_state"
where
  "script_run scale inp s =
     (case upload_section scale inp s of
        (Rerun, err, s1) \<Rightarrow> (\<lparr>error_shown = err, shown = None, rerun = True\<rparr>, s1)
      | (_, err, s1) \<Rightarrow>
          (case results_section s1 of
             (res, s2) \<Rightarrow> (\<lparr>error_shown = err, shown = res, rerun = False\<rparr>, s2)))"

section \<open>Inputs used in the examples\<close>


definition measured :: session_state where
  "measured = \<lparr>thickness = Some 8, processed_image = Some (blank 6 5)\<rparr>"


definition stale :: session_state where
  "stale = \<lparr>thickness = Some 10, processed_image = Some (blank 1 1)\<rparr>"

definition no_upload :: run_input where
  "no_upload = \<lparr>uploaded_file = None, button = False, mock_thickness = 0, fault = None\<rparr>"


definition failing_upload :: run_input where
  "failing_upload = \<lparr>uploaded_file = Some (blank 6 5), button = True, mock_thickness = 8,
       fault = Some (Convert, ''cannot identify image file'')\<rparr>"

section \<open>Facts about the segmentation\<close>

lemma nth_map_enumerate:
  "i < length xs \<Longrightarrow> map f (enumerate 0 xs) ! i = f (i, xs ! i)"
  by (simp add: nth_enumerate_eq)
















section \<open>Facts about a run of the script\<close>

lemma results_section_state: "snd (results_section s) = s"
  by (simp add: results_section_def Let_def split: prod.splits)

lemma results_section_Some:
  assumes "fst (results_section s) = Some r"
  shows "thickness s \<noteq> None \<and> processed_image s \<noteq> None
         \<and> (classification r, color r) = classify_endometrium (thickness s)
         \<and> metric r = thickness s \<and> segmented r = processed_image s"
  using assms
  by (auto simp add: results_section_def Let_def split: if_splits prod.splits)

lemma upload_section_raised:
  assumes "uploaded_file inp = Some img" "fst (try_body scale inp img s) = Raised e"
  shows "upload_section scale inp s =
           (Finished, Some (''Error loading or processing image: '' @ e),
            (snd (try_body scale inp img s))\<lparr>thickness := None, processed_image := None\<rparr>)"
  using assms by (cases "try_body scale inp img s") (simp add: upload_section_def)

section \<open>The classifier on each range\<close>

text \<open>
  C1. For every thickness \<open>t\<close> with \<open>9 \<le> t \<le> 15\<close>, both bounds included, the
  classifier returns the label \<^verbatim>\<open>Receptive (9-15 mm)\<close> with the colour
  \<^verbatim>\<open>green\<close>.
\<close>

theorem classify_receptive:
  "9 \<le> t \<Longrightarrow> t \<le> 15 \<Longrightarrow>
     classify_endometrium (Some t) = (''Receptive (9-15 mm)'', ''green'')"
  by (simp add: classify_endometrium_def)

theorem classify_receptive_witness:
  "classify_endometrium (Some 9) = (''Receptive (9-15 mm)'', ''green'')
   \<and> classify_endometrium (Some 12.5) = (''Receptive (9-15 mm)'', ''green'')
   \<and> classify_endometrium (Some 15) = (''Receptive (9-15 mm)'', ''green'')"
  using classify_receptive [of 9] classify_receptive [of "12.5"] classify_receptive [of 15]
  by simp

text \<open>
  C2. For every thickness \<open>t\<close> with \<open>7 < t < 9\<close>, both bounds excluded, the
  classifier returns the label \<^verbatim>\<open>Pre-Receptive (7-9 mm)\<close> with the colour
  \<^verbatim>\<open>orange\<close>.
\<close>

theorem classify_pre_receptive:
  "7 < t \<Longrightarrow> t < 9 \<Longrightarrow>
     classify_endometrium (Some t) = (''Pre-Receptive (7-9 mm)'', ''orange'')"
  by (simp add: classify_endometrium_def)

theorem classify_pre_receptive_witness:
  "classify_endometrium (Some 7.01) = (''Pre-Receptive (7-9 mm)'', ''orange'')
   \<and> classify_endometrium (Some 8) = (''Pre-Receptive (7-9 mm)'', ''orange'')
   \<and> classify_endometrium (Some 8.99) = (''Pre-Receptive (7-9 mm)'', ''orange'')"
  using classify_pre_receptive [of "7.01"] classify_pre_receptive [of 8]
    classify_pre_receptive [of "8.99"]
  by simp

text \<open>
  C3. For every thickness \<open>t\<close> with \<open>t < 7\<close> or \<open>t > 15\<close> the classifier returns the
  label \<^verbatim>\<open>Non-Receptive (<7 mm or >15 mm)\<close> with the colour \<^verbatim>\<open>red\<close>, and it
  returns the same at the boundary \<open>t = 7\<close>, which the strict test of the
  Pre-Receptive branch leaves out.
\<close>

theorem classify_non_receptive:
  "t < 7 \<or> 15 < t \<or> t = 7 \<Longrightarrow>
     classify_endometrium (Some t) = (''Non-Receptive (<7 mm or >15 mm)'', ''red'')"
  by (auto simp add: classify_endometrium_def)

theorem classify_non_receptive_witness:
  "classify_endometrium (Some 6.99) = (''Non-Receptive (<7 mm or >15 mm)'', ''red'')
   \<and> classify_endometrium (Some 15.01) = (''Non-Receptive (<7 mm or >15 mm)'', ''red'')
   \<and> classify_endometrium (Some 0) = (''Non-Receptive (<7 mm or >15 mm)'', ''red'')
   \<and> classify_endometrium (Some 100) = (''Non-Receptive (<7 mm or >15 mm)'', ''red'')
   \<and> classify_endometrium (Some 7) = (''Non-Receptive (<7 mm or >15 mm)'', ''red'')
   \<and> classify_endometrium (Some 7) \<noteq> (''Pre-Receptive (7-9 mm)'', ''orange'')"
  using classify_non_receptive [of "6.99"] classify_non_receptive [of "15.01"]
    classify_non_receptive [of 0] classify_non_receptive [of 100]
    classify_non_receptive [of 7]
  by simp

text \<open>
  C4. For every argument that is not a number, that is for the absent thickness
  \<^verbatim>\<open>None\<close>, the classifier returns the label \<^verbatim>\<open>N/A\<close>, and its second
  component is the informational message \<^verbatim>\<open>Please run the analysis first.\<close>.
\<close>

theorem classify_absent:
  "(\<forall>t. thickness_mm \<noteq> Some t) \<Longrightarrow>
     classify_endometrium thickness_mm = (''N/A'', ''Please run the analysis first.'')"
  by (cases thickness_mm) (simp_all add: classify_endometrium_def)

theorem classify_absent_witness:
  "(\<forall>t::real. None \<noteq> Some t)
   \<and> classify_endometrium None = (''N/A'', ''Please run the analysis first.'')"
  using classify_absent [of None] by simp

text \<open>
  C5, as the specification states it, fails: for \<^verbatim>\<open>None\<close> the second component
  is a message and none of the three colours.
\<close>

theorem classify_absent_not_a_colour:
  "snd (classify_endometrium None) \<notin> {''green'', ''orange'', ''red''}"
  by (simp add: classify_endometrium_def)

text \<open>
  C5, amended. For every finite thickness the second component of the result is one
  of the colours \<^verbatim>\<open>green\<close>, \<^verbatim>\<open>orange\<close> and \<^verbatim>\<open>red\<close>; for the absent thickness
  it is the message \<^verbatim>\<open>Please run the analysis first.\<close>.
\<close>

theorem classify_colour_of_number:
  "snd (classify_endometrium (Some t)) \<in> {''green'', ''orange'', ''red''}
   \<and> snd (classify_endometrium None) = ''Please run the analysis first.''"
  by (simp add: classify_endometrium_def)

theorem classify_colour_of_number_witness:
  "snd (classify_endometrium (Some 8)) \<in> {''green'', ''orange'', ''red''}
   \<and> snd (classify_endometrium (Some 8)) = ''orange''"
proof
  show "snd (classify_endometrium (Some 8)) \<in> {''green'', ''orange'', ''red''}"
    using classify_colour_of_number [of 8] by (rule conjunct1)
next
  show "snd (classify_endometrium (Some 8)) = ''orange''"
    by (simp add: classify_endometrium_def)
qed

text \<open>
  C6. The classifier is total on \<^verbatim>\<open>None\<close> and the finite thicknesses, and its
  four branches are exhaustive and mutually exclusive: for every argument exactly
  one branch fires, the result is the pair that branch returns, and the tests of the
  Receptive and the Pre-Receptive branch never hold together. There is no error
  result.
\<close>

theorem classify_exactly_one_branch:
  "(\<exists>!b. fires b thickness_mm)
   \<and> (\<forall>b. fires b thickness_mm \<longrightarrow> classify_endometrium thickness_mm = returned b)
   \<and> (\<forall>t. \<not> ((t \<ge> 9.0 \<and> t \<le> 15.0) \<and> (t > 7.0 \<and> t < (9.0::real))))"
proof (intro conjI)
  show "\<exists>!b. fires b thickness_mm"
  proof (cases thickness_mm)
    case None
    show ?thesis
    proof (rule ex1I [where a = Absent])
      show "fires Absent thickness_mm" using None by simp
    next
      fix b assume "fires b thickness_mm"
      with None show "b = Absent" by (cases b) simp_all
    qed
  next
    case (Some t)
    consider (r) "t \<ge> 9 \<and> t \<le> 15" | (p) "\<not> (t \<ge> 9 \<and> t \<le> 15)" "t > 7 \<and> t < 9"
      | (n) "\<not> (t \<ge> 9 \<and> t \<le> 15)" "\<not> (t > 7 \<and> t < 9)"
      by blast
    then show ?thesis
    proof cases
      case r
      show ?thesis
      proof (rule ex1I [where a = Receptive])
        show "fires Receptive thickness_mm" using Some r by simp
      next
        fix b assume "fires b thickness_mm"
        with Some r show "b = Receptive" by (cases b) simp_all
      qed
    next
      case p
      show ?thesis
      proof (rule ex1I [where a = Pre_Receptive])
        show "fires Pre_Receptive thickness_mm" using Some p by simp
      next
        fix b assume "fires b thickness_mm"
        with Some p show "b = Pre_Receptive" by (cases b) simp_all
      qed
    next
      case n
      show ?thesis
      proof (rule ex1I [where a = Non_Receptive])
        show "fires Non_Receptive thickness_mm" using Some n by simp
      next
        fix b assume "fires b thickness_mm"
        with Some n show "b = Non_Receptive" by (cases b) simp_all
      qed
    qed
  qed
next
  show "\<forall>b. fires b thickness_mm \<longrightarrow> classify_endometrium thickness_mm = returned b"
  proof (intro allI impI)
    fix b assume "fires b thickness_mm"
    then show "classify_endometrium thickness_mm = returned b"
      by (cases b; cases thickness_mm) (simp_all add: classify_endometrium_def)
  qed
next
  show "\<forall>t. \<not> ((t \<ge> 9.0 \<and> t \<le> 15.0) \<and> (t > 7.0 \<and> t < (9.0::real)))"
    by simp
qed

theorem classify_exactly_one_branch_witness:
  "fires Non_Receptive (Some 7)
   \<and> filter (\<lambda>b. fires b (Some 7)) [Absent, Receptive, Pre_Receptive, Non_Receptive]
        = [Non_Receptive]
   \<and> classify_endometrium (Some 7) = returned Non_Receptive"
proof -
  have f: "fires Non_Receptive (Some 7)" by simp
  have l: "filter (\<lambda>b. fires b (Some 7)) [Absent, Receptive, Pre_Receptive, Non_Receptive]
             = [Non_Receptive]"
    by simp
  from classify_exactly_one_branch [of "Some 7"]
  have "\<forall>b. fires b (Some 7) \<longrightarrow> classify_endometrium (Some 7) = returned b"
    by blast
  with f have "classify_endometrium (Some 7) = returned Non_Receptive" by blast
  with f l show ?thesis by blast
qed



section \<open>The segmentation output\<close>




section \<open>The script\<close>

text \<open>
  C9. If a statement of the \<^verbatim>\<open>try\<close> block that loads and processes the uploaded
  image raises an exception, then at the end of the run both entries of the session
  state, \<^verbatim>\<open>thickness\<close> and \<^verbatim>\<open>processed_image\<close>, are \<^verbatim>\<open>None\<close>, whatever they
  held before and whatever the block had stored before the exception; the results
  section renders nothing and the error message is shown.
\<close>

theorem exception_resets_session:
  assumes "uploaded_file inp = Some img" "fst (try_body scale inp img s) = Raised e"
  shows "thickness (snd (script_run scale inp s)) = None
     \<and> processed_image (snd (script_run scale inp s)) = None
     \<and> shown (fst (script_run scale inp s)) = None
     \<and> rerun (fst (script_run scale inp s)) = False
     \<and> error_shown (fst (script_run scale inp s)) =
           Some (''Error loading or processing image: '' @ e)"
  by (simp add: script_run_def upload_section_raised [OF assms] results_section_def)

theorem exception_resets_session_witness:
  "uploaded_file failing_upload = Some (blank 6 5)
   \<and> try_body id failing_upload (blank 6 5) stale =
       (Raised ''cannot identify image file'',
        \<lparr>thickness = Some 8, processed_image = Some (blank 1 1)\<rparr>)
   \<and> thickness (snd (script_run id failing_upload stale)) = None
   \<and> processed_image (snd (script_run id failing_upload stale)) = None
   \<and> shown (fst (script_run id failing_upload stale)) = None"
proof -
  have u: "uploaded_file failing_upload = Some (blank 6 5)"
    by (simp add: failing_upload_def)
  have t: "try_body id failing_upload (blank 6 5) stale =
       (Raised ''cannot identify image file'',
        \<lparr>thickness = Some 8, processed_image = Some (blank 1 1)\<rparr>)"
    by (simp add: try_body_def fault_in_def failing_upload_def stale_def)
  then have f: "fst (try_body id failing_upload (blank 6 5) stale)
                  = Raised ''cannot identify image file''"
    by simp
  from exception_resets_session [OF u f] u t show ?thesis by blast
qed

text \<open>
  C10. In a run of the script the classifier is called only under the guard that
  both entries of the session state are not \<^verbatim>\<open>None\<close>: whenever results are
  rendered, the thickness in the session state is a number \<open>t\<close>, the processed image
  is present, and the label and colour shown are those of \<open>t\<close>, so the label is
  never \<^verbatim>\<open>N/A\<close> and the colour is one of the three colours.
\<close>

theorem classify_only_on_number:
  assumes "shown (fst (script_run scale inp s)) = Some r"
  shows "\<exists>t. thickness (snd (script_run scale inp s)) = Some t
           \<and> processed_image (snd (script_run scale inp s)) \<noteq> None
           \<and> metric r = Some t
           \<and> (classification r, color r) = classify_endometrium (Some t)
           \<and> classification r \<noteq> ''N/A''
           \<and> color r \<in> {''green'', ''orange'', ''red''}"
proof -
  obtain sig err s1 where u: "upload_section scale inp s = (sig, err, s1)"
    by (cases "upload_section scale inp s") auto
  have nr: "sig \<noteq> Rerun"
    using assms u by (auto simp add: script_run_def)
  then have run: "script_run scale inp s =
      (\<lparr>error_shown = err, shown = fst (results_section s1), rerun = False\<rparr>, s1)"
    using u results_section_state [of s1]
    by (cases sig; cases "results_section s1") (simp_all add: script_run_def)
  with assms have "fst (results_section s1) = Some r" by simp
  from results_section_Some [OF this] obtain t where
    t: "thickness s1 = Some t" and p: "processed_image s1 \<noteq> None"
    and c: "(classification r, color r) = classify_endometrium (Some t)"
    and m: "metric r = Some t"
    by auto
  have "classification r \<noteq> ''N/A''" "color r \<in> {''green'', ''orange'', ''red''}"
    using c by (auto simp add: classify_endometrium_def split: if_splits)
  with t p c m run show ?thesis by simp
qed

theorem classify_only_on_number_witness:
  "shown (fst (script_run id no_upload measured)) =
      Some \<lparr>metric = Some 8, classification = ''Pre-Receptive (7-9 mm)'', color = ''orange'',
            segmented = Some (blank 6 5)\<rparr>
   \<and> thickness (snd (script_run id no_upload measured)) = Some 8"
proof -
  have s: "shown (fst (script_run id no_upload measured)) =
      Some \<lparr>metric = Some 8, classification = ''Pre-Receptive (7-9 mm)'', color = ''orange'',
            segmented = Some (blank 6 5)\<rparr>"
    by (simp add: script_run_def upload_section_def results_section_def no_upload_def
        measured_def classify_endometrium_def Let_def)
  from classify_only_on_number [OF s]
  have "thickness (snd (script_run id no_upload measured)) = Some 8"
    by auto
  with s show ?thesis by blast
qed

end
